theory Spec2Isabelle
  imports Complex_Main
begin

section \<open>Decimal arithmetic of the client (bignumber.js)\<close>

text \<open>
  Every monetary field of the client is a \<open>BigNumber\<close> of the bignumber.js library, used
  with its default configuration. Such a value is a decimal number of arbitrary precision,
  or one of the three values without digits: plus infinity, minus infinity and NaN. The
  finite ones are modelled by the rational they denote (every finite decimal is a
  rational), and the sign of a zero is not kept: a zero is the rational 0. The client
  itself never produces a negative zero.

  The library's operations the client calls are \<open>minus\<close>, \<open>div\<close> and \<open>times\<close>.
  \<open>minus\<close> and \<open>times\<close> are exact. \<open>div\<close> rounds its quotient to \<open>DECIMAL_PLACES\<close> = 20
  decimal places with rounding mode \<open>ROUND_HALF_UP\<close> (to the nearest, a tie away from
  zero), and does not throw on a zero divisor: it returns an infinity or NaN.

  The library keeps the decimal exponent of a finite value between \<open>-MAX_EXP\<close> and
  \<open>MAX_EXP\<close> = 10000000: a result of larger magnitude becomes an infinity and a
  non-zero result of smaller magnitude becomes zero. The operations below compute the
  result the library gives when it is within that range, which \<open>bn_in_range\<close> states;
  they do not follow the library beyond it. The values the client computes are far inside
  the range, and the monotonicity of the health factor, which is about arbitrary totals,
  is stated for computations that stay in the range (\<open>health_factor_in_range\<close>).
\<close>

datatype BigNumber = Fin rat | PosInf | NegInf | NaN

definition DECIMAL_PLACES :: nat where
  "DECIMAL_PLACES = 20"

definition round_half_up :: "rat \<Rightarrow> rat" where
  "round_half_up x =
     (if 0 \<le> x then of_int \<lfloor>x * 10 ^ DECIMAL_PLACES + 1 / 2\<rfloor> / 10 ^ DECIMAL_PLACES
      else - (of_int \<lfloor>- x * 10 ^ DECIMAL_PLACES + 1 / 2\<rfloor> / 10 ^ DECIMAL_PLACES))"

definition MAX_EXP :: nat where
  "MAX_EXP = 10000000"

definition bn_in_range :: "rat \<Rightarrow> bool" where
  "bn_in_range x = (x = 0 \<or> (1 / 10 ^ MAX_EXP \<le> \<bar>x\<bar> \<and> \<bar>x\<bar> < 10 ^ (MAX_EXP + 1)))"

fun bn_negated :: "BigNumber \<Rightarrow> BigNumber" where
  "bn_negated (Fin a) = Fin (- a)"
| "bn_negated PosInf = NegInf"
| "bn_negated NegInf = PosInf"
| "bn_negated NaN = NaN"

fun bn_minus :: "BigNumber \<Rightarrow> BigNumber \<Rightarrow> BigNumber" where
  "bn_minus NaN y = NaN"
| "bn_minus x NaN = NaN"
| "bn_minus (Fin a) (Fin b) = Fin (a - b)"
| "bn_minus (Fin a) y = bn_negated y"
| "bn_minus PosInf PosInf = NaN"
| "bn_minus NegInf NegInf = NaN"
| "bn_minus x y = x"

fun bn_signed_inf :: "bool \<Rightarrow> BigNumber" where
  "bn_signed_inf True = PosInf"
| "bn_signed_inf False = NegInf"

fun bn_times :: "BigNumber \<Rightarrow> BigNumber \<Rightarrow> BigNumber" where
  "bn_times NaN y = NaN"
| "bn_times x NaN = NaN"
| "bn_times (Fin a) (Fin b) = Fin (a * b)"
| "bn_times (Fin a) y = (if a = 0 then NaN else bn_signed_inf ((0 < a) = (y = PosInf)))"
| "bn_times x (Fin b) = (if b = 0 then NaN else bn_signed_inf ((0 < b) = (x = PosInf)))"
| "bn_times x y = bn_signed_inf (x = y)"

fun bn_div :: "BigNumber \<Rightarrow> BigNumber \<Rightarrow> BigNumber" where
  "bn_div NaN y = NaN"
| "bn_div x NaN = NaN"
| "bn_div (Fin a) (Fin b) =
     (if b = 0 then (if a = 0 then NaN else bn_signed_inf (0 < a))
      else Fin (round_half_up (a / b)))"
| "bn_div (Fin a) y = Fin 0"
| "bn_div x (Fin b) = bn_signed_inf ((0 \<le> b) = (x = PosInf))"
| "bn_div x y = NaN"

section \<open>Addresses and key generation\<close>

text \<open>
  A \<open>PublicKey\<close> is an opaque address, written in base 58. The client draws fresh
  addresses from \<open>Keypair.generate()\<close>, which reads the system's random source: the model
  passes that source along explicitly, as the sequence of keys the coming calls will
  return.
\<close>

datatype PublicKey = PublicKey string

type_synonym entropy = "nat \<Rightarrow> PublicKey"

definition Keypair_generate :: "entropy \<Rightarrow> PublicKey \<times> entropy" where
  "Keypair_generate e = (e 0, \<lambda>n. e (Suc n))"

definition system_program :: PublicKey where
  "system_program = PublicKey ''11111111111111111111111111111111''"

section \<open>Data model (lib/types.ts)\<close>

record Bank =
  address :: PublicKey
  mint :: PublicKey
  tokenSymbol :: string
  tokenName :: string
  tokenDecimals :: int
  assetShareValue :: BigNumber
  liabilityShareValue :: BigNumber
  depositLimit :: BigNumber
  borrowLimit :: BigNumber
  depositRate :: BigNumber
  borrowRate :: BigNumber
  totalAssets :: BigNumber
  totalLiabilities :: BigNumber
  price :: BigNumber
  isActive :: bool

record AccountBalance =
  bankAddress :: PublicKey
  tokenSymbol :: string
  tokenName :: string
  tokenDecimals :: int
  assetShares :: BigNumber
  liabilityShares :: BigNumber
  assetAmount :: BigNumber
  liabilityAmount :: BigNumber
  price :: BigNumber

record MarginfiAccount =
  address :: PublicKey
  authority :: PublicKey
  balances :: "AccountBalance list"
  healthFactor :: BigNumber
  equity :: BigNumber
  assets :: BigNumber
  liabilities :: BigNumber

text \<open>
  The client declares no error class: a method either resolves to its value or rejects
  with whatever was thrown inside it, which its \<open>catch\<close> block logs and throws again.
  The outcomes below are the failures the specification names, and \<open>Thrown\<close> for any other
  exception.
\<close>

datatype ClientError =
    NotFound | InvalidInput | InvalidAmount | InsufficientBalance
  | MarginRequirementViolation | NotLiquidatable | InsufficientCollateral
  | DivisionError | StaleData | Thrown

type_synonym 'a outcome = "(ClientError + 'a) \<times> entropy"

section \<open>The client (lib/marginfi-client.ts)\<close>

subsection \<open>Helpers building the data\<close>

definition createMockBank :: "string \<Rightarrow> PublicKey option \<Rightarrow> entropy \<Rightarrow> Bank \<times> entropy" where
  "createMockBank symbol addr e =
     (let (bankAddress, e1) = (case addr of Some a \<Rightarrow> (a, e) | None \<Rightarrow> Keypair_generate e);
          (mintKey, e2) = Keypair_generate e1
      in (\<lparr> Bank.address = bankAddress,
            mint = mintKey,
            Bank.tokenSymbol = symbol,
            Bank.tokenName = symbol @ '' Token'',
            Bank.tokenDecimals = 6,
            assetShareValue = Fin (105 / 100),
            liabilityShareValue = Fin (105 / 100),
            depositLimit = Fin 1000000,
            borrowLimit = Fin 500000,
            depositRate = Fin (5 / 100),
            borrowRate = Fin (1 / 10),
            totalAssets = Fin 500000,
            totalLiabilities = Fin 250000,
            Bank.price = Fin (if symbol = ''USDC'' then 1 else if symbol = ''SOL'' then 20 else 30000),
            isActive = True \<rparr>, e2))"

text \<open>
  The two lines that derive an account's equity and health factor from its totals, as
  functions of the totals.
\<close>

definition computeEquity :: "BigNumber \<Rightarrow> BigNumber \<Rightarrow> BigNumber" where
  "computeEquity a l = bn_minus a l"

definition computeHealthFactor :: "BigNumber \<Rightarrow> BigNumber \<Rightarrow> BigNumber" where
  "computeHealthFactor a l = bn_times (bn_div (computeEquity a l) l) (Fin 100)"

text \<open>
  \<open>health_factor_in_range a l\<close>: every value in the computation of the health factor of
  assets \<open>a\<close> and liabilities \<open>l\<close> (the two totals, their difference, the rounded quotient
  and its product with 100) is within the library's exponent range, so that no step
  overflows to an infinity or underflows to zero.
\<close>

definition health_factor_in_range :: "rat \<Rightarrow> rat \<Rightarrow> bool" where
  "health_factor_in_range a l =
     (bn_in_range a \<and> bn_in_range l \<and> bn_in_range (a - l)
      \<and> bn_in_range (round_half_up ((a - l) / l))
      \<and> bn_in_range (round_half_up ((a - l) / l) * 100))"

definition createMockMarginfiAccount ::
  "PublicKey \<Rightarrow> PublicKey option \<Rightarrow> entropy \<Rightarrow> MarginfiAccount \<times> entropy" where
  "createMockMarginfiAccount auth addr e =
     (let (accountAddress, e1) = (case addr of Some a \<Rightarrow> (a, e) | None \<Rightarrow> Keypair_generate e);
          (usdcBank, e2) = createMockBank ''USDC'' None e1;
          (solBank, e3) = createMockBank ''SOL'' None e2;
          bals = [
            \<lparr> bankAddress = Bank.address usdcBank,
              AccountBalance.tokenSymbol = ''USDC'',
              AccountBalance.tokenName = ''USDC Token'',
              AccountBalance.tokenDecimals = 6,
              assetShares = Fin 1000,
              liabilityShares = Fin 0,
              assetAmount = Fin 1050,
              liabilityAmount = Fin 0,
              AccountBalance.price = Fin 1 \<rparr>,
            \<lparr> bankAddress = Bank.address solBank,
              AccountBalance.tokenSymbol = ''SOL'',
              AccountBalance.tokenName = ''SOL Token'',
              AccountBalance.tokenDecimals = 9,
              assetShares = Fin 0,
              liabilityShares = Fin 10,
              assetAmount = Fin 0,
              liabilityAmount = Fin (105 / 10),
              AccountBalance.price = Fin 20 \<rparr> ];
          a = Fin 1050;
          l = Fin 210
      in (\<lparr> address = accountAddress,
            authority = auth,
            balances = bals,
            healthFactor = computeHealthFactor a l,
            equity = computeEquity a l,
            assets = a,
            liabilities = l \<rparr>, e3))"

subsection \<open>Reading banks and accounts\<close>

definition getAllBanks :: "entropy \<Rightarrow> Bank list outcome" where
  "getAllBanks e =
     (let (usdc, e1) = createMockBank ''USDC'' None e;
          (sol, e2) = createMockBank ''SOL'' None e1;
          (btc, e3) = createMockBank ''BTC'' None e2
      in (Inr [usdc, sol, btc], e3))"

definition getBankByAddress :: "PublicKey \<Rightarrow> entropy \<Rightarrow> Bank option outcome" where
  "getBankByAddress a e =
     (let (bank, e1) = createMockBank ''USDC'' (Some a) e in (Inr (Some bank), e1))"

definition getBankBySymbol :: "string \<Rightarrow> entropy \<Rightarrow> Bank option outcome" where
  "getBankBySymbol symbol e =
     (let (bank, e1) = createMockBank symbol None e in (Inr (Some bank), e1))"

definition getMarginfiAccountsForAuthority ::
  "PublicKey \<Rightarrow> entropy \<Rightarrow> MarginfiAccount list outcome" where
  "getMarginfiAccountsForAuthority auth e =
     (let (acc, e1) = createMockMarginfiAccount auth None e in (Inr [acc], e1))"

definition getMarginfiAccountByAddress ::
  "PublicKey \<Rightarrow> entropy \<Rightarrow> MarginfiAccount option outcome" where
  "getMarginfiAccountByAddress a e =
     (let (acc, e1) = createMockMarginfiAccount system_program (Some a) e
      in (Inr (Some acc), e1))"

subsection \<open>Creating and changing accounts\<close>

definition createMarginfiAccount :: "PublicKey \<Rightarrow> entropy \<Rightarrow> MarginfiAccount outcome" where
  "createMarginfiAccount auth e =
     (let (acc, e1) = createMockMarginfiAccount auth None e in (Inr acc, e1))"

definition deposit ::
  "PublicKey \<Rightarrow> PublicKey \<Rightarrow> BigNumber \<Rightarrow> entropy \<Rightarrow> MarginfiAccount outcome" where
  "deposit accountAddress bankAddr amount e =
     (let (acc, e1) = createMockMarginfiAccount system_program (Some accountAddress) e
      in (Inr acc, e1))"

definition withdraw ::
  "PublicKey \<Rightarrow> PublicKey \<Rightarrow> BigNumber \<Rightarrow> entropy \<Rightarrow> MarginfiAccount outcome" where
  "withdraw accountAddress bankAddr amount e =
     (let (acc, e1) = createMockMarginfiAccount system_program (Some accountAddress) e
      in (Inr acc, e1))"

definition borrow ::
  "PublicKey \<Rightarrow> PublicKey \<Rightarrow> BigNumber \<Rightarrow> entropy \<Rightarrow> MarginfiAccount outcome" where
  "borrow accountAddress bankAddr amount e =
     (let (acc, e1) = createMockMarginfiAccount system_program (Some accountAddress) e
      in (Inr acc, e1))"

definition repay ::
  "PublicKey \<Rightarrow> PublicKey \<Rightarrow> BigNumber \<Rightarrow> entropy \<Rightarrow> MarginfiAccount outcome" where
  "repay accountAddress bankAddr amount e =
     (let (acc, e1) = createMockMarginfiAccount system_program (Some accountAddress) e
      in (Inr acc, e1))"

definition liquidate ::
  "PublicKey \<Rightarrow> PublicKey \<Rightarrow> PublicKey \<Rightarrow> PublicKey \<Rightarrow> BigNumber \<Rightarrow> entropy
     \<Rightarrow> MarginfiAccount outcome" where
  "liquidate liquidatorAccountAddress liquidateeAccountAddress assetBankAddress
       liabilityBankAddress amount e =
     (let (acc, e1) = createMockMarginfiAccount system_program (Some liquidatorAccountAddress) e
      in (Inr acc, e1))"

subsection \<open>The four balance transitions, by name\<close>

datatype transition = Deposit | Withdraw | Borrow | Repay

fun run_transition ::
  "transition \<Rightarrow> PublicKey \<Rightarrow> PublicKey \<Rightarrow> BigNumber \<Rightarrow> entropy \<Rightarrow> MarginfiAccount outcome" where
  "run_transition Deposit = deposit"
| "run_transition Withdraw = withdraw"
| "run_transition Borrow = borrow"
| "run_transition Repay = repay"

subsection \<open>The accounts a caller can receive\<close>

text \<open>
  \<open>client_returns acc\<close>: some public method of the client, called with some arguments,
  resolves to \<open>acc\<close> (or to a list or an optional holding it).
\<close>

inductive client_returns :: "MarginfiAccount \<Rightarrow> bool" where
  by_authority:
    "getMarginfiAccountsForAuthority auth e = (Inr accs, e') \<Longrightarrow> acc \<in> set accs
       \<Longrightarrow> client_returns acc"
| by_address:
    "getMarginfiAccountByAddress a e = (Inr (Some acc), e') \<Longrightarrow> client_returns acc"
| by_create:
    "createMarginfiAccount auth e = (Inr acc, e') \<Longrightarrow> client_returns acc"
| by_transition:
    "run_transition t a b amount e = (Inr acc, e') \<Longrightarrow> client_returns acc"
| by_liquidate:
    "liquidate liquidator liquidatee ab lb amount e = (Inr acc, e') \<Longrightarrow> client_returns acc"

subsection \<open>The numeric fields of an account\<close>

definition balance_numbers :: "AccountBalance \<Rightarrow> BigNumber list" where
  "balance_numbers b =
     [assetShares b, liabilityShares b, assetAmount b, liabilityAmount b, AccountBalance.price b]"

definition account_numbers :: "MarginfiAccount \<Rightarrow> BigNumber list list \<times> BigNumber list" where
  "account_numbers acc =
     (map balance_numbers (balances acc),
      [assets acc, liabilities acc, equity acc, healthFactor acc])"

definition outcome_numbers ::
  "MarginfiAccount outcome \<Rightarrow> ClientError + BigNumber list list \<times> BigNumber list" where
  "outcome_numbers r = map_sum id account_numbers (fst r)"

section \<open>The specification's transition rules, for comparison with the client\<close>

text \<open>
  Two more operations of bignumber.js, which the rules below need and the client does not
  call: \<open>plus\<close> (exact) and the comparison \<open>isLessThan\<close> (false when either side is NaN).
\<close>

definition bn_plus :: "BigNumber \<Rightarrow> BigNumber \<Rightarrow> BigNumber" where
  "bn_plus x y = bn_minus x (bn_negated y)"

fun bn_isLessThan :: "BigNumber \<Rightarrow> BigNumber \<Rightarrow> bool" where
  "bn_isLessThan NaN y = False"
| "bn_isLessThan x NaN = False"
| "bn_isLessThan (Fin a) (Fin b) = (a < b)"
| "bn_isLessThan x PosInf = (x \<noteq> PosInf)"
| "bn_isLessThan NegInf y = (y \<noteq> NegInf)"
| "bn_isLessThan x y = False"

text \<open>
  Modelled from the spec: \<open>sharesToAmount\<close> of section 4.1, which the client does not
  have (it writes the amounts of its balances as constants). In the specification's
  words, on the client's decimal type:
  \<open>sharesToAmount(shares, shareValue) = shares * shareValue\<close>.
\<close>

definition sharesToAmount :: "BigNumber \<Rightarrow> BigNumber \<Rightarrow> BigNumber" where
  "sharesToAmount shares shareValue = bn_times shares shareValue"

text \<open>
  Modelled from the spec: \<open>amountToShares\<close> of section 4.1, which the client does not
  have. In the specification's words, on the client's decimal type:
  \<open>amountToShares(amount, shareValue) = amount / shareValue\<close>, failing with
  \<open>DivisionError\<close> when \<open>shareValue == 0\<close>.
\<close>

definition amountToShares :: "BigNumber \<Rightarrow> BigNumber \<Rightarrow> ClientError + BigNumber" where
  "amountToShares amount shareValue =
     (if shareValue = Fin 0 then Inl DivisionError else Inr (bn_div amount shareValue))"

text \<open>
  Modelled from the spec: the asset shares section 4.4 gives a balance after a withdrawal,
  which the client does not compute. A withdrawal of \<open>amount\<close> tokens lowers the asset
  shares by the amount's worth of shares at the bank's share value.
\<close>

definition spec_sharesAfterWithdraw :: "AccountBalance \<Rightarrow> BigNumber \<Rightarrow> BigNumber \<Rightarrow> BigNumber" where
  "spec_sharesAfterWithdraw bal shareValue amount =
     bn_minus (assetShares bal) (bn_div amount shareValue)"

text \<open>
  Modelled from the spec: the health factor section 4.4 has a borrow evaluate before it
  commits, which the client does not compute. A borrow of \<open>amount\<close> tokens at price \<open>p\<close>
  raises the account's liabilities by \<open>amount * p\<close>, and the health factor is taken again
  on the new totals, with the client's own formula.
\<close>

definition spec_healthFactorAfterBorrow :: "MarginfiAccount \<Rightarrow> BigNumber \<Rightarrow> BigNumber \<Rightarrow> BigNumber" where
  "spec_healthFactorAfterBorrow acc p amount =
     computeHealthFactor (assets acc) (bn_plus (liabilities acc) (bn_times amount p))"

section \<open>Sample inputs\<close>

definition sample_entropy :: entropy where
  "sample_entropy n = PublicKey (''generated'' @ replicate n CHR ''1'')"

definition alice :: PublicKey where
  "alice = PublicKey ''AccountA''"

definition bob :: PublicKey where
  "bob = PublicKey ''AccountB''"

definition bank1 :: PublicKey where
  "bank1 = PublicKey ''BankOne''"

definition bank2 :: PublicKey where
  "bank2 = PublicKey ''BankTwo''"

text \<open>
  The account and the bank the client shows at these addresses, before any transition.
\<close>

definition alice_account :: MarginfiAccount where
  "alice_account = fst (createMockMarginfiAccount system_program (Some alice) sample_entropy)"

definition bank1_bank :: Bank where
  "bank1_bank = fst (createMockBank ''USDC'' (Some bank1) sample_entropy)"

section \<open>Rounding to twenty decimal places\<close>

lemma round_half_up_exact:
  assumes "x * 10 ^ DECIMAL_PLACES = of_int k"
  shows "round_half_up x = x"
proof -
  let ?s = "(10::rat) ^ DECIMAL_PLACES"
  have s: "0 < ?s" by simp
  have fl: "\<lfloor>(of_int k :: rat) + 1 / 2\<rfloor> = k" by linarith
  have fl': "\<lfloor>(of_int (- k) :: rat) + 1 / 2\<rfloor> = - k" by linarith
  have x: "x = of_int k / ?s" using assms s by (simp add: field_simps)
  show ?thesis
  proof (cases "0 \<le> x")
    case True
    then show ?thesis using assms fl x by (simp add: round_half_up_def)
  next
    case False
    have "- x * ?s = of_int (- k)" using assms by simp
    then show ?thesis using False fl' x by (simp add: round_half_up_def)
  qed
qed

lemma round_half_up_of_int: "round_half_up (of_int k) = of_int k"
  by (rule round_half_up_exact [where k = "k * 10 ^ DECIMAL_PLACES"]) simp

lemma round_half_up_error: "\<bar>round_half_up x - x\<bar> \<le> 1 / (2 * 10 ^ DECIMAL_PLACES)"
proof -
  let ?s = "(10::rat) ^ DECIMAL_PLACES"
  have s: "0 < ?s" by simp
  have near: "\<bar>of_int \<lfloor>y + 1 / 2\<rfloor> - y\<bar> \<le> 1 / 2" for y :: rat
    by linarith
  show ?thesis
  proof (cases "0 \<le> x")
    case True
    have "\<bar>round_half_up x - x\<bar> = \<bar>of_int \<lfloor>x * ?s + 1 / 2\<rfloor> - x * ?s\<bar> / ?s"
      using True s by (simp add: round_half_up_def field_simps flip: abs_mult)
    also have "\<dots> \<le> (1 / 2) / ?s"
      by (rule divide_right_mono [OF near]) (use s in simp)
    finally show ?thesis by simp
  next
    case False
    have "\<bar>round_half_up x - x\<bar> = \<bar>of_int \<lfloor>- x * ?s + 1 / 2\<rfloor> - (- x * ?s)\<bar> / ?s"
      using False s by (simp add: round_half_up_def field_simps flip: abs_mult)
    also have "\<dots> \<le> (1 / 2) / ?s"
      by (rule divide_right_mono [OF near]) (use s in simp)
    finally show ?thesis by simp
  qed
qed

lemma round_half_up_mono:
  assumes "x \<le> y"
  shows "round_half_up x \<le> round_half_up y"
proof -
  let ?s = "(10::rat) ^ DECIMAL_PLACES"
  have s: "0 < ?s" by simp
  consider "0 \<le> x" | "x < 0" "0 \<le> y" | "y < 0" using assms by linarith
  then show ?thesis
  proof cases
    case 1
    then have y: "0 \<le> y" using assms by simp
    have "x * ?s + 1 / 2 \<le> y * ?s + 1 / 2" using assms s by simp
    then have "\<lfloor>x * ?s + 1 / 2\<rfloor> \<le> \<lfloor>y * ?s + 1 / 2\<rfloor>" by (rule floor_mono)
    then show ?thesis using 1 y s by (simp add: round_half_up_def divide_right_mono)
  next
    case 2
    have "0 \<le> (- x) * ?s" using 2 s by (intro mult_nonneg_nonneg) simp_all
    then have a: "0 \<le> \<lfloor>- x * ?s + 1 / 2\<rfloor>" by simp
    have b: "0 \<le> \<lfloor>y * ?s + 1 / 2\<rfloor>" using 2 s by simp
    have "round_half_up x \<le> 0" using 2 a s by (simp add: round_half_up_def)
    moreover have "0 \<le> round_half_up y" using 2 b s by (simp add: round_half_up_def)
    ultimately show ?thesis by simp
  next
    case 3
    then have x: "x < 0" using assms by simp
    have "- y * ?s + 1 / 2 \<le> - x * ?s + 1 / 2" using assms s by simp
    then have "\<lfloor>- y * ?s + 1 / 2\<rfloor> \<le> \<lfloor>- x * ?s + 1 / 2\<rfloor>" by (rule floor_mono)
    then show ?thesis using 3 x s by (simp add: round_half_up_def divide_right_mono)
  qed
qed


lemma round_half_up_step:
  "round_half_up x < round_half_up (x + 1 / 10 ^ DECIMAL_PLACES)"
proof -
  let ?s = "(10::rat) ^ DECIMAL_PLACES"
  have s: "0 < ?s" by simp
  have shift: "(x + 1 / ?s) * ?s = x * ?s + 1" using s by (simp add: field_simps)
  have up: "\<lfloor>y + 1 + 1 / 2\<rfloor> = \<lfloor>y + 1 / 2\<rfloor> + 1" for y :: rat by linarith
  have down: "\<lfloor>- (y + 1) + 1 / 2\<rfloor> = \<lfloor>- y + 1 / 2\<rfloor> - 1" for y :: rat by linarith
  have cross: "- \<lfloor>- y + 1 / 2\<rfloor> \<le> \<lfloor>y + 1 / 2\<rfloor>" for y :: rat by linarith
  consider "0 \<le> x" | "x < 0" "0 \<le> x + 1 / ?s" | "x + 1 / ?s < 0" by linarith
  then show ?thesis
  proof cases
    case 1
    then have "0 \<le> x + 1 / ?s" using s by simp
    then have "round_half_up (x + 1 / ?s) = of_int (\<lfloor>x * ?s + 1 / 2\<rfloor> + 1) / ?s"
      unfolding round_half_up_def shift using up [of "x * ?s"] by simp
    moreover have "round_half_up x = of_int \<lfloor>x * ?s + 1 / 2\<rfloor> / ?s"
      using 1 by (simp add: round_half_up_def)
    ultimately show ?thesis using s by (simp add: divide_strict_right_mono)
  next
    case 2
    have "round_half_up (x + 1 / ?s) = of_int (\<lfloor>x * ?s + 1 / 2\<rfloor> + 1) / ?s"
      unfolding round_half_up_def shift using 2 up [of "x * ?s"] by simp
    moreover have "round_half_up x = of_int (- \<lfloor>- (x * ?s) + 1 / 2\<rfloor>) / ?s"
      using 2 by (simp add: round_half_up_def)
    moreover have "- \<lfloor>- (x * ?s) + 1 / 2\<rfloor> < \<lfloor>x * ?s + 1 / 2\<rfloor> + 1"
      using cross [of "x * ?s"] by linarith
    then have "(of_int (- \<lfloor>- (x * ?s) + 1 / 2\<rfloor>) :: rat) < of_int (\<lfloor>x * ?s + 1 / 2\<rfloor> + 1)"
      by (simp only: of_int_less_iff)
    ultimately show ?thesis using s by (simp only: divide_strict_right_mono)
  next
    case 3
    then have x: "x < 0" using s by (smt (verit) divide_nonneg_pos add_increasing2 zero_le_one less_eq_rat_def not_less)
    have e: "- (x + 1 / ?s) * ?s + 1 / 2 = - (x * ?s + 1) + 1 / 2"
      using s by (simp add: field_simps)
    have fl: "\<lfloor>- (x + 1 / ?s) * ?s + 1 / 2\<rfloor> = \<lfloor>- (x * ?s) + 1 / 2\<rfloor> - 1"
      by (simp only: e down)
    have r1: "round_half_up (x + 1 / ?s) = - (of_int (\<lfloor>- (x * ?s) + 1 / 2\<rfloor> - 1) / ?s)"
      using 3 by (simp only: round_half_up_def fl) simp
    have r2: "round_half_up x = - (of_int \<lfloor>- (x * ?s) + 1 / 2\<rfloor> / ?s)"
      using x by (simp add: round_half_up_def)
    have "round_half_up (x + 1 / ?s) - round_half_up x = 1 / ?s"
      unfolding r1 r2 by (simp add: diff_divide_distrib)
    then show ?thesis using s
      by (smt (verit) diff_gt_0_iff_gt zero_less_divide_1_iff)
  qed
qed

lemma round_half_up_strict:
  assumes "x + 1 / 10 ^ DECIMAL_PLACES \<le> y"
  shows "round_half_up x < round_half_up y"
  using round_half_up_step [of x] round_half_up_mono [OF assms] by simp

text \<open>Values of moderate size are within the exponent range.\<close>

lemma bn_in_range_moderate:
  assumes "1 / 10 ^ 20 \<le> \<bar>x\<bar>" "\<bar>x\<bar> < 10 ^ 20"
  shows "bn_in_range x"
proof -
  have "(10::rat) ^ 20 \<le> 10 ^ MAX_EXP"
    by (rule power_increasing) (simp_all add: MAX_EXP_def)
  then have lo: "1 / (10::rat) ^ MAX_EXP \<le> 1 / 10 ^ 20"
    by (intro divide_left_mono) simp_all
  have hi: "(10::rat) ^ 20 \<le> 10 ^ (MAX_EXP + 1)"
    by (rule power_increasing) (simp_all add: MAX_EXP_def)
  from assms lo hi show ?thesis
    unfolding bn_in_range_def by linarith
qed

section \<open>What the helpers build\<close>

lemma createMockBank_value:
  "fst (createMockBank symbol addr e) =
     \<lparr> Bank.address = (case addr of Some a \<Rightarrow> a | None \<Rightarrow> e 0),
       mint = (case addr of Some a \<Rightarrow> e 0 | None \<Rightarrow> e 1),
       Bank.tokenSymbol = symbol,
       Bank.tokenName = symbol @ '' Token'',
       Bank.tokenDecimals = 6,
       assetShareValue = Fin (105 / 100),
       liabilityShareValue = Fin (105 / 100),
       depositLimit = Fin 1000000,
       borrowLimit = Fin 500000,
       depositRate = Fin (5 / 100),
       borrowRate = Fin (1 / 10),
       totalAssets = Fin 500000,
       totalLiabilities = Fin 250000,
       Bank.price = Fin (if symbol = ''USDC'' then 1 else if symbol = ''SOL'' then 20 else 30000),
       isActive = True \<rparr>"
  by (simp add: createMockBank_def Keypair_generate_def split: option.split)

lemma computeHealthFactor_Fin:
  "l \<noteq> 0 \<Longrightarrow>
     computeHealthFactor (Fin a) (Fin l) = Fin (round_half_up ((a - l) / l) * 100)"
  by (simp add: computeHealthFactor_def computeEquity_def)

lemma mock_equity: "computeEquity (Fin 1050) (Fin 210) = Fin 840"
  by (simp add: computeEquity_def)

lemma mock_healthFactor: "computeHealthFactor (Fin 1050) (Fin 210) = Fin 400"
proof -
  have "round_half_up ((1050 - 210) / 210) = round_half_up (of_int 4)" by simp
  then show ?thesis by (simp add: computeHealthFactor_Fin round_half_up_of_int del: of_int_numeral)
qed

lemmas mock_account_unfold =
  createMockMarginfiAccount_def createMockBank_def Keypair_generate_def
  mock_equity mock_healthFactor

lemma mock_account_address:
  "address (fst (createMockMarginfiAccount auth addr e)) =
     (case addr of Some a \<Rightarrow> a | None \<Rightarrow> e 0)"
  by (simp add: mock_account_unfold split: option.split)

lemma mock_account_authority:
  "authority (fst (createMockMarginfiAccount auth addr e)) = auth"
  by (simp add: mock_account_unfold split: option.split)

lemma mock_account_totals:
  "assets (fst (createMockMarginfiAccount auth addr e)) = Fin 1050"
  "liabilities (fst (createMockMarginfiAccount auth addr e)) = Fin 210"
  "equity (fst (createMockMarginfiAccount auth addr e)) = Fin 840"
  "healthFactor (fst (createMockMarginfiAccount auth addr e)) = Fin 400"
  by (simp_all add: mock_account_unfold split: option.split)

lemma mock_account_balances:
  "map AccountBalance.tokenSymbol (balances (fst (createMockMarginfiAccount auth addr e)))
     = [''USDC'', ''SOL'']"
  "map assetShares (balances (fst (createMockMarginfiAccount auth addr e))) = [Fin 1000, Fin 0]"
  "map liabilityShares (balances (fst (createMockMarginfiAccount auth addr e))) = [Fin 0, Fin 10]"
  "map assetAmount (balances (fst (createMockMarginfiAccount auth addr e))) = [Fin 1050, Fin 0]"
  "map liabilityAmount (balances (fst (createMockMarginfiAccount auth addr e)))
     = [Fin 0, Fin (21 / 2)]"
  "map AccountBalance.price (balances (fst (createMockMarginfiAccount auth addr e)))
     = [Fin 1, Fin 20]"
  by (simp_all add: mock_account_unfold split: option.split)

lemma mock_account_numbers:
  "account_numbers (fst (createMockMarginfiAccount auth addr e)) =
     ([[Fin 1000, Fin 0, Fin 1050, Fin 0, Fin 1], [Fin 0, Fin 10, Fin 0, Fin (21 / 2), Fin 20]],
      [Fin 1050, Fin 210, Fin 840, Fin 400])"
  by (simp add: account_numbers_def balance_numbers_def mock_account_unfold split: option.split)

section \<open>What the methods resolve to\<close>

lemma run_transition_value:
  "run_transition t a b amount e =
     (Inr (fst (createMockMarginfiAccount system_program (Some a) e)),
      snd (createMockMarginfiAccount system_program (Some a) e))"
  by (cases t) (simp_all add: deposit_def withdraw_def borrow_def repay_def split_def Let_def)

lemma liquidate_value:
  "liquidate liquidator liquidatee ab lb amount e =
     (Inr (fst (createMockMarginfiAccount system_program (Some liquidator) e)),
      snd (createMockMarginfiAccount system_program (Some liquidator) e))"
  by (simp add: liquidate_def split_def Let_def)

lemma getMarginfiAccountByAddress_value:
  "getMarginfiAccountByAddress a e =
     (Inr (Some (fst (createMockMarginfiAccount system_program (Some a) e))),
      snd (createMockMarginfiAccount system_program (Some a) e))"
  by (simp add: getMarginfiAccountByAddress_def split_def Let_def)

lemma getBankByAddress_value:
  "getBankByAddress a e =
     (Inr (Some (fst (createMockBank ''USDC'' (Some a) e))),
      snd (createMockBank ''USDC'' (Some a) e))"
  by (simp add: getBankByAddress_def split_def Let_def)

lemma client_returns_mock:
  assumes "client_returns acc"
  shows "\<exists>auth addr e. acc = fst (createMockMarginfiAccount auth addr e)"
  using assms
proof cases
  case (by_authority auth e accs e')
  then have "acc = fst (createMockMarginfiAccount auth None e)"
    by (auto simp add: getMarginfiAccountsForAuthority_def split_def Let_def)
  then show ?thesis by blast
next
  case (by_address a e e')
  then have "acc = fst (createMockMarginfiAccount system_program (Some a) e)"
    by (simp add: getMarginfiAccountByAddress_value)
  then show ?thesis by blast
next
  case (by_create auth e e')
  then have "acc = fst (createMockMarginfiAccount auth None e)"
    by (auto simp add: createMarginfiAccount_def split_def Let_def)
  then show ?thesis by blast
next
  case (by_transition t a b amount e e')
  then have "acc = fst (createMockMarginfiAccount system_program (Some a) e)"
    by (simp add: run_transition_value)
  then show ?thesis by blast
next
  case (by_liquidate liquidator liquidatee ab lb amount e e')
  then have "acc = fst (createMockMarginfiAccount system_program (Some liquidator) e)"
    by (simp add: liquidate_value)
  then show ?thesis by blast
qed

section \<open>Health factor and equity of the accounts returned\<close>

text \<open>
  C1. Every account a method of the client resolves to carries
  \<open>healthFactor = (assets - liabilities) / liabilities * 100\<close>, computed with the
  decimal operations above. Its two balances are the built-in ones: each amount is the
  shares times the share value 1.05 of the token's bank, each price is that bank's price,
  and the totals are the sums of amount times price. The values are exact decimals:
  amounts 1050 and 10.5, assets 1050, liabilities 210, equity 840, health factor 400.
\<close>

theorem returned_account_health_factor:
  assumes "client_returns acc"
  shows "healthFactor acc =
           bn_times (bn_div (bn_minus (assets acc) (liabilities acc)) (liabilities acc)) (Fin 100)
    \<and> map AccountBalance.tokenSymbol (balances acc) = [''USDC'', ''SOL'']
    \<and> map assetShares (balances acc) = [Fin 1000, Fin 0]
    \<and> map liabilityShares (balances acc) = [Fin 0, Fin 10]
    \<and> map AccountBalance.price (balances acc) = [Fin 1, Fin 20]
    \<and> map assetAmount (balances acc) = [Fin 1050, Fin 0]
    \<and> map liabilityAmount (balances acc) = [Fin 0, Fin (21 / 2)]
    \<and> (\<forall>bal \<in> set (balances acc).
          assetAmount bal = bn_times (assetShares bal)
            (assetShareValue (fst (createMockBank (AccountBalance.tokenSymbol bal) None e)))
        \<and> liabilityAmount bal = bn_times (liabilityShares bal)
            (liabilityShareValue (fst (createMockBank (AccountBalance.tokenSymbol bal) None e)))
        \<and> AccountBalance.price bal =
            Bank.price (fst (createMockBank (AccountBalance.tokenSymbol bal) None e)))
    \<and> assets acc =
          foldl bn_plus (Fin 0)
            (map (\<lambda>bal. bn_times (assetAmount bal) (AccountBalance.price bal)) (balances acc))
    \<and> liabilities acc =
          foldl bn_plus (Fin 0)
            (map (\<lambda>bal. bn_times (liabilityAmount bal) (AccountBalance.price bal)) (balances acc))
    \<and> assets acc = Fin 1050
    \<and> liabilities acc = Fin 210
    \<and> equity acc = Fin 840
    \<and> healthFactor acc = Fin 400"
proof -
  from assms obtain auth addr e0 where acc: "acc = fst (createMockMarginfiAccount auth addr e0)"
    using client_returns_mock by blast
  have formula: "healthFactor acc =
      bn_times (bn_div (bn_minus (assets acc) (liabilities acc)) (liabilities acc)) (Fin 100)"
    unfolding acc
    by (simp add: createMockMarginfiAccount_def createMockBank_def Keypair_generate_def
        computeHealthFactor_def computeEquity_def split: option.split)
  have each: "\<forall>bal \<in> set (balances acc).
          assetAmount bal = bn_times (assetShares bal)
            (assetShareValue (fst (createMockBank (AccountBalance.tokenSymbol bal) None e)))
        \<and> liabilityAmount bal = bn_times (liabilityShares bal)
            (liabilityShareValue (fst (createMockBank (AccountBalance.tokenSymbol bal) None e)))
        \<and> AccountBalance.price bal =
            Bank.price (fst (createMockBank (AccountBalance.tokenSymbol bal) None e))"
    unfolding acc
    by (simp add: createMockBank_value)
       (simp add: createMockMarginfiAccount_def createMockBank_def Keypair_generate_def
          Let_def split: option.split)
  have sums: "assets acc =
          foldl bn_plus (Fin 0)
            (map (\<lambda>bal. bn_times (assetAmount bal) (AccountBalance.price bal)) (balances acc))"
     "liabilities acc =
          foldl bn_plus (Fin 0)
            (map (\<lambda>bal. bn_times (liabilityAmount bal) (AccountBalance.price bal)) (balances acc))"
    unfolding acc
    by (simp_all add: createMockMarginfiAccount_def createMockBank_def Keypair_generate_def
          bn_plus_def Let_def split: option.split)
  show ?thesis
    using formula each sums
    by (simp only: acc mock_account_balances mock_account_totals simp_thms)
qed


theorem returned_account_health_factor_witness:
  "client_returns alice_account
    \<and> healthFactor alice_account =
          bn_times (bn_div (bn_minus (assets alice_account) (liabilities alice_account))
            (liabilities alice_account)) (Fin 100)
    \<and> map assetAmount (balances alice_account) = [Fin 1050, Fin 0]
    \<and> map liabilityAmount (balances alice_account) = [Fin 0, Fin (21 / 2)]
    \<and> assets alice_account = Fin 1050
    \<and> liabilities alice_account = Fin 210
    \<and> equity alice_account = Fin 840
    \<and> healthFactor alice_account = Fin 400"
proof -
  have "getMarginfiAccountByAddress alice sample_entropy =
      (Inr (Some alice_account),
       snd (createMockMarginfiAccount system_program (Some alice) sample_entropy))"
    by (simp add: getMarginfiAccountByAddress_value alice_account_def)
  then have h: "client_returns alice_account"
    by (rule by_address)
  from returned_account_health_factor [OF h, where e = sample_entropy] h
  show ?thesis by blast
qed

text \<open>
  C2. For every account a method of the client resolves to, \<open>equity = assets - liabilities\<close>:
  the field is the exact decimal difference of the two totals, with no rounding.
\<close>

theorem returned_account_equity:
  assumes "client_returns acc"
  shows "equity acc = bn_minus (assets acc) (liabilities acc)
    \<and> (\<exists>a l. assets acc = Fin a \<and> liabilities acc = Fin l \<and> equity acc = Fin (a - l))"
proof -
  from assms obtain auth addr e0 where acc: "acc = fst (createMockMarginfiAccount auth addr e0)"
    using client_returns_mock by blast
  show ?thesis
    unfolding acc by (simp add: mock_account_totals)
qed

theorem returned_account_equity_witness:
  "client_returns (fst (createMockMarginfiAccount bob None sample_entropy))
    \<and> equity (fst (createMockMarginfiAccount bob None sample_entropy)) =
        bn_minus (assets (fst (createMockMarginfiAccount bob None sample_entropy)))
          (liabilities (fst (createMockMarginfiAccount bob None sample_entropy)))"
proof -
  have "createMarginfiAccount bob sample_entropy =
      (Inr (fst (createMockMarginfiAccount bob None sample_entropy)),
       snd (createMockMarginfiAccount bob None sample_entropy))"
    by (simp add: createMarginfiAccount_def split_def Let_def)
  then have h: "client_returns (fst (createMockMarginfiAccount bob None sample_entropy))"
    by (rule by_create)
  from returned_account_equity [OF h] h
  show ?thesis by blast
qed

section \<open>Independence from the amount and the bank\<close>

text \<open>
  C8. Two runs of the same transition (deposit, withdraw, borrow or repay) on one account
  address, with any two bank addresses, any two amounts and any two states of the random
  source, resolve to accounts with the same numeric fields: the shares, amounts and price
  of each balance and the account's assets, liabilities, equity and health factor. The
  same holds for two runs of liquidate with one liquidator and one liquidatee. Neither
  run fails.
\<close>

theorem mutations_ignore_amount_and_bank:
  "outcome_numbers (run_transition t a b1 amount1 e1) =
     outcome_numbers (run_transition t a b2 amount2 e2)
   \<and> outcome_numbers (liquidate liquidator liquidatee ab1 lb1 amount1 e1) =
     outcome_numbers (liquidate liquidator liquidatee ab2 lb2 amount2 e2)
   \<and> outcome_numbers (run_transition t a b1 amount1 e1) =
     Inr ([[Fin 1000, Fin 0, Fin 1050, Fin 0, Fin 1], [Fin 0, Fin 10, Fin 0, Fin (21 / 2), Fin 20]],
          [Fin 1050, Fin 210, Fin 840, Fin 400])
   \<and> outcome_numbers (liquidate liquidator liquidatee ab1 lb1 amount1 e1) =
     Inr ([[Fin 1000, Fin 0, Fin 1050, Fin 0, Fin 1], [Fin 0, Fin 10, Fin 0, Fin (21 / 2), Fin 20]],
          [Fin 1050, Fin 210, Fin 840, Fin 400])"
  by (simp add: outcome_numbers_def run_transition_value liquidate_value mock_account_numbers)

theorem mutations_ignore_amount_and_bank_witness:
  "outcome_numbers (deposit alice bank1 (Fin 100) sample_entropy) =
     outcome_numbers (deposit alice bank2 (Fin 5) (\<lambda>n. bob))
   \<and> outcome_numbers (liquidate alice bob bank1 bank2 (Fin 100) sample_entropy) =
     outcome_numbers (liquidate alice bob bank2 bank1 (Fin 5) (\<lambda>n. bob))"
  using mutations_ignore_amount_and_bank
    [where t = Deposit and a = alice and ?b1.0 = bank1 and ?amount1.0 = "Fin 100"
       and ?e1.0 = sample_entropy and ?b2.0 = bank2 and ?amount2.0 = "Fin 5"
       and ?e2.0 = "\<lambda>n. bob" and liquidator = alice and liquidatee = bob
       and ?ab1.0 = bank1 and ?lb1.0 = bank2 and ?ab2.0 = bank2 and ?lb2.0 = bank1]
  by simp

section \<open>Banks\<close>

text \<open>
  C9. For every address \<open>a\<close>, \<open>getBankByAddress a\<close> resolves to a bank, never to null;
  the bank's address is \<open>a\<close> and its token symbol is USDC, whatever \<open>a\<close> is.
\<close>

theorem getBankByAddress_never_absent:
  "\<exists>bank e'. getBankByAddress a e = (Inr (Some bank), e')
     \<and> Bank.address bank = a \<and> Bank.tokenSymbol bank = ''USDC''"
  by (simp add: getBankByAddress_value createMockBank_value)

theorem getBankByAddress_never_absent_witness:
  "\<exists>bank e'. getBankByAddress bank2 sample_entropy = (Inr (Some bank), e')
     \<and> Bank.address bank = bank2 \<and> Bank.tokenSymbol bank = ''USDC''"
  using getBankByAddress_never_absent [of bank2 sample_entropy] by simp

text \<open>
  C10. \<open>getAllBanks\<close> resolves to exactly three banks, with token symbols USDC, SOL and
  BTC in this order. Every bank the client builds is active, has 6 token decimals, asset
  and liability share values of 1.05, and price 1 for USDC, 20 for SOL and 30000 for any
  other symbol: so are the three banks of \<open>getAllBanks\<close>, the bank \<open>getBankBySymbol\<close>
  resolves to for any symbol, the bank \<open>getBankByAddress\<close> resolves to for any address, and
  every bank \<open>createMockBank\<close> builds, for any symbol, with or without a given address.
\<close>

theorem getAllBanks_three_banks:
  "(\<exists>banks e'. getAllBanks e = (Inr banks, e')
      \<and> map Bank.tokenSymbol banks = [''USDC'', ''SOL'', ''BTC'']
      \<and> map isActive banks = [True, True, True]
      \<and> map Bank.tokenDecimals banks = [6, 6, 6]
      \<and> map assetShareValue banks = [Fin (105 / 100), Fin (105 / 100), Fin (105 / 100)]
      \<and> map liabilityShareValue banks = [Fin (105 / 100), Fin (105 / 100), Fin (105 / 100)]
      \<and> map Bank.price banks = [Fin 1, Fin 20, Fin 30000])
   \<and> (\<exists>bank e'. getBankBySymbol symbol e = (Inr (Some bank), e')
      \<and> Bank.tokenSymbol bank = symbol
      \<and> isActive bank = True
      \<and> Bank.tokenDecimals bank = 6
      \<and> assetShareValue bank = Fin (105 / 100)
      \<and> liabilityShareValue bank = Fin (105 / 100)
      \<and> Bank.price bank =
          Fin (if symbol = ''USDC'' then 1 else if symbol = ''SOL'' then 20 else 30000))
   \<and> (\<exists>bank e'. getBankByAddress a e = (Inr (Some bank), e')
      \<and> Bank.tokenSymbol bank = ''USDC''
      \<and> isActive bank = True
      \<and> Bank.tokenDecimals bank = 6
      \<and> assetShareValue bank = Fin (105 / 100)
      \<and> liabilityShareValue bank = Fin (105 / 100)
      \<and> Bank.price bank = Fin 1)
   \<and> Bank.tokenSymbol (fst (createMockBank symbol addr e)) = symbol
   \<and> isActive (fst (createMockBank symbol addr e)) = True
   \<and> Bank.tokenDecimals (fst (createMockBank symbol addr e)) = 6
   \<and> assetShareValue (fst (createMockBank symbol addr e)) = Fin (105 / 100)
   \<and> liabilityShareValue (fst (createMockBank symbol addr e)) = Fin (105 / 100)
   \<and> Bank.price (fst (createMockBank symbol addr e)) =
       Fin (if symbol = ''USDC'' then 1 else if symbol = ''SOL'' then 20 else 30000)"
proof -
  have "getAllBanks e =
      (Inr [fst (createMockBank ''USDC'' None e),
            fst (createMockBank ''SOL'' None (snd (createMockBank ''USDC'' None e))),
            fst (createMockBank ''BTC'' None
              (snd (createMockBank ''SOL'' None (snd (createMockBank ''USDC'' None e)))))],
       snd (createMockBank ''BTC'' None
              (snd (createMockBank ''SOL'' None (snd (createMockBank ''USDC'' None e))))))"
    by (simp add: getAllBanks_def split_def Let_def)
  moreover have "getBankBySymbol symbol e =
      (Inr (Some (fst (createMockBank symbol None e))), snd (createMockBank symbol None e))"
    by (simp add: getBankBySymbol_def split_def Let_def)
  ultimately show ?thesis
    by (simp add: getBankByAddress_value createMockBank_value)
qed

theorem getAllBanks_three_banks_witness:
  "(\<exists>banks e'. getAllBanks sample_entropy = (Inr banks, e')
      \<and> map Bank.tokenSymbol banks = [''USDC'', ''SOL'', ''BTC'']
      \<and> map isActive banks = [True, True, True]
      \<and> map Bank.tokenDecimals banks = [6, 6, 6]
      \<and> map assetShareValue banks = [Fin (105 / 100), Fin (105 / 100), Fin (105 / 100)]
      \<and> map liabilityShareValue banks = [Fin (105 / 100), Fin (105 / 100), Fin (105 / 100)]
      \<and> map Bank.price banks = [Fin 1, Fin 20, Fin 30000])
   \<and> (\<exists>bank e'. getBankBySymbol ''ETH'' sample_entropy = (Inr (Some bank), e')
      \<and> Bank.tokenSymbol bank = ''ETH''
      \<and> isActive bank = True
      \<and> Bank.tokenDecimals bank = 6
      \<and> assetShareValue bank = Fin (105 / 100)
      \<and> liabilityShareValue bank = Fin (105 / 100)
      \<and> Bank.price bank = Fin 30000)
   \<and> (\<exists>bank e'. getBankByAddress bank1 sample_entropy = (Inr (Some bank), e')
      \<and> Bank.tokenSymbol bank = ''USDC''
      \<and> isActive bank = True
      \<and> Bank.tokenDecimals bank = 6
      \<and> assetShareValue bank = Fin (105 / 100)
      \<and> liabilityShareValue bank = Fin (105 / 100)
      \<and> Bank.price bank = Fin 1)"
proof -
  have eth: "(if ''ETH'' = ''USDC'' then 1 else if ''ETH'' = ''SOL'' then 20 else (30000::rat))
      = 30000"
    by simp
  from getAllBanks_three_banks [of sample_entropy "''ETH''" bank1 None]
  show ?thesis
    unfolding eth by blast
qed

section \<open>Preconditions and failures of the mutating methods\<close>

lemma alice_account_read:
  "fst (getMarginfiAccountByAddress alice sample_entropy) = Inr (Some alice_account)"
  by (simp add: getMarginfiAccountByAddress_value alice_account_def)

lemma bank1_bank_read:
  "fst (getBankByAddress bank1 sample_entropy) = Inr (Some bank1_bank)"
  by (simp add: getBankByAddress_value bank1_bank_def)

text \<open>
  C3, as stated, fails. A repay amount of \<open>-5\<close> is not positive, so the claim has
  \<open>liquidate\<close> fail with \<open>InvalidAmount\<close>; the method resolves to the liquidator's account.
\<close>

theorem liquidate_negative_amount_resolves:
  "fst (liquidate alice bob bank1 bank2 (Fin (- 5)) sample_entropy) \<noteq> Inl InvalidAmount
   \<and> \<not> isl (fst (liquidate alice bob bank1 bank2 (Fin (- 5)) sample_entropy))
   \<and> address (projr (fst (liquidate alice bob bank1 bank2 (Fin (- 5)) sample_entropy))) = alice"
  by (simp add: liquidate_value mock_account_address)

text \<open>
  C3, amended. \<open>liquidate\<close> checks no precondition: for every liquidator, liquidatee, asset
  bank, liability bank and amount it resolves, never failing with \<open>NotLiquidatable\<close>,
  \<open>InsufficientCollateral\<close>, \<open>InvalidAmount\<close> or any other error, to the account at the
  liquidator's address with the built-in balances and totals.
\<close>

theorem liquidate_always_resolves:
  "\<exists>acc e'. liquidate liquidator liquidatee ab lb amount e = (Inr acc, e')
     \<and> address acc = liquidator
     \<and> authority acc = system_program
     \<and> account_numbers acc =
         ([[Fin 1000, Fin 0, Fin 1050, Fin 0, Fin 1], [Fin 0, Fin 10, Fin 0, Fin (21 / 2), Fin 20]],
          [Fin 1050, Fin 210, Fin 840, Fin 400])"
  by (simp add: liquidate_value mock_account_address mock_account_authority mock_account_numbers)

theorem liquidate_always_resolves_witness:
  "\<exists>acc e'. liquidate alice bob bank1 bank2 (Fin 0) sample_entropy = (Inr acc, e')
     \<and> address acc = alice
     \<and> healthFactor acc = Fin 400"
  using liquidate_always_resolves [of alice bob bank1 bank2 "Fin 0" sample_entropy]
  by (auto simp add: account_numbers_def)

text \<open>
  C4, as stated, fails. The account at \<open>alice\<close> has assets 1050 and liabilities 210. A borrow
  of 1000000000 tokens from the bank at \<open>bank1\<close> (price 1) would, by the specification's
  rule, bring the health factor below 0, hence below any threshold that is not negative;
  the claim has \<open>borrow\<close> fail with \<open>MarginRequirementViolation\<close>; the method resolves.
\<close>

theorem borrow_beyond_margin_resolves:
  "fst (getMarginfiAccountByAddress alice sample_entropy) = Inr (Some alice_account)
   \<and> fst (getBankByAddress bank1 sample_entropy) = Inr (Some bank1_bank)
   \<and> bn_isLessThan
        (spec_healthFactorAfterBorrow alice_account (Bank.price bank1_bank) (Fin 1000000000))
        (Fin 0)
   \<and> fst (borrow alice bank1 (Fin 1000000000) sample_entropy) \<noteq> Inl MarginRequirementViolation
   \<and> \<not> isl (fst (borrow alice bank1 (Fin 1000000000) sample_entropy))"
proof -
  have "round_half_up ((1050 - (210 + 1000000000 * 1)) / (210 + 1000000000 * 1)) * 100 < 0"
    by code_simp
  then have "bn_isLessThan
        (spec_healthFactorAfterBorrow alice_account (Bank.price bank1_bank) (Fin 1000000000))
        (Fin 0)"
    by (simp add: spec_healthFactorAfterBorrow_def alice_account_def bank1_bank_def
        mock_account_totals createMockBank_value bn_plus_def computeHealthFactor_Fin)
  moreover have "\<not> isl (fst (borrow alice bank1 (Fin 1000000000) sample_entropy))"
    using run_transition_value [of Borrow] by simp
  ultimately show ?thesis
    using alice_account_read bank1_bank_read by (auto simp add: isl_def)
qed


text \<open>
  C4, amended. \<open>borrow\<close> checks no margin requirement: for every account address, bank and
  amount it resolves, never failing with \<open>MarginRequirementViolation\<close> or any other
  error, to the account at that address, and the numeric fields of its balances and
  totals are those the account shows when it is read before the call: nothing is applied.
\<close>

theorem borrow_always_resolves:
  "\<exists>acc e' before e''.
       borrow a b amount e = (Inr acc, e')
     \<and> getMarginfiAccountByAddress a e0 = (Inr (Some before), e'')
     \<and> address acc = a
     \<and> address before = a
     \<and> account_numbers acc = account_numbers before"
  using run_transition_value [of Borrow a b amount e]
  by (simp add: getMarginfiAccountByAddress_value mock_account_address mock_account_numbers)

theorem borrow_always_resolves_witness:
  "\<exists>acc e'. borrow alice bank1 (Fin 1000000000) sample_entropy = (Inr acc, e')
     \<and> address acc = alice
     \<and> account_numbers acc = account_numbers alice_account"
proof -
  from borrow_always_resolves [of alice bank1 "Fin 1000000000" sample_entropy sample_entropy]
  obtain acc e' before e'' where
    run: "borrow alice bank1 (Fin 1000000000) sample_entropy = (Inr acc, e')" and
    read: "getMarginfiAccountByAddress alice sample_entropy = (Inr (Some before), e'')" and
    same: "address acc = alice" "account_numbers acc = account_numbers before"
    by blast
  from read alice_account_read have "before = alice_account" by simp
  with run same show ?thesis by blast
qed

text \<open>
  C5, as stated, fails. The account at \<open>alice\<close> holds 1000 and 0 asset shares. A withdrawal
  of 2000 tokens at the share value 1.05 of the bank at \<open>bank1\<close> is worth more shares than
  either balance holds, so by the specification's rule it would make the asset shares
  negative; the claim has \<open>withdraw\<close> fail with \<open>InsufficientBalance\<close>; the method
  resolves.
\<close>

theorem withdraw_beyond_balance_resolves:
  "fst (getMarginfiAccountByAddress alice sample_entropy) = Inr (Some alice_account)
   \<and> fst (getBankByAddress bank1 sample_entropy) = Inr (Some bank1_bank)
   \<and> map (\<lambda>bal. bn_isLessThan
               (spec_sharesAfterWithdraw bal (assetShareValue bank1_bank) (Fin 2000)) (Fin 0))
        (balances alice_account) = [True, True]
   \<and> fst (withdraw alice bank1 (Fin 2000) sample_entropy) \<noteq> Inl InsufficientBalance
   \<and> \<not> isl (fst (withdraw alice bank1 (Fin 2000) sample_entropy))"
proof -
  have "1000 - round_half_up (2000 / (105 / 100)) < 0" "0 - round_half_up (2000 / (105 / 100)) < 0"
    by code_simp+
  then have "map (\<lambda>bal. bn_isLessThan
               (spec_sharesAfterWithdraw bal (assetShareValue bank1_bank) (Fin 2000)) (Fin 0))
        (balances alice_account) = [True, True]"
    by (simp add: spec_sharesAfterWithdraw_def alice_account_def bank1_bank_def
        createMockBank_value createMockMarginfiAccount_def createMockBank_def
        Keypair_generate_def Let_def)
  moreover have "\<not> isl (fst (withdraw alice bank1 (Fin 2000) sample_entropy))"
    using run_transition_value [of Withdraw] by simp
  ultimately show ?thesis
    using alice_account_read bank1_bank_read by (auto simp add: isl_def)
qed

text \<open>
  C5, amended. None of deposit, withdraw, borrow and repay checks a balance: for every
  account address, bank and amount each resolves, never failing with
  \<open>InsufficientBalance\<close> or any other error, to the account at that address with the
  built-in shares (asset shares 1000 and 0, liability shares 0 and 10). It applies no
  change: read after the call, the account has the numeric fields it had before, and the
  bank its totals of 500000 assets and 250000 liabilities.
\<close>

theorem transitions_always_resolve:
  "\<exists>acc e' accBefore accAfter bankBefore bankAfter x1 x2 x3 x4.
       run_transition t a b amount e = (Inr acc, e')
     \<and> address acc = a
     \<and> map assetShares (balances acc) = [Fin 1000, Fin 0]
     \<and> map liabilityShares (balances acc) = [Fin 0, Fin 10]
     \<and> getMarginfiAccountByAddress a e = (Inr (Some accBefore), x1)
     \<and> getMarginfiAccountByAddress a e' = (Inr (Some accAfter), x2)
     \<and> account_numbers accAfter = account_numbers accBefore
     \<and> getBankByAddress b e = (Inr (Some bankBefore), x3)
     \<and> getBankByAddress b e' = (Inr (Some bankAfter), x4)
     \<and> totalAssets bankBefore = Fin 500000 \<and> totalAssets bankAfter = Fin 500000
     \<and> totalLiabilities bankBefore = Fin 250000 \<and> totalLiabilities bankAfter = Fin 250000"
  by (simp add: run_transition_value getMarginfiAccountByAddress_value getBankByAddress_value
      mock_account_address mock_account_balances mock_account_numbers createMockBank_value)

theorem transitions_always_resolve_witness:
  "\<exists>acc e'. withdraw alice bank1 (Fin 2000) sample_entropy = (Inr acc, e')
     \<and> address acc = alice
     \<and> map assetShares (balances acc) = [Fin 1000, Fin 0]
     \<and> map liabilityShares (balances acc) = [Fin 0, Fin 10]"
  using transitions_always_resolve [of Withdraw alice bank1 "Fin 2000" sample_entropy]
  by auto

section \<open>Monotonicity of the health factor\<close>

text \<open>
  C6, as stated, fails, in both halves. With no assets the health factor is \<open>-100\<close> for
  every positive amount of liabilities, so it does not decrease from liabilities 1 to
  liabilities 2. And the quotient is rounded to 20 decimal places: with liabilities of
  \<open>10 ^ 30\<close>, assets 0 and assets 1 give the same health factor \<open>-100\<close>.
\<close>

theorem health_factor_not_strict:
  "computeHealthFactor (Fin 0) (Fin 1) = Fin (- 100)
   \<and> computeHealthFactor (Fin 0) (Fin 2) = Fin (- 100)
   \<and> \<not> bn_isLessThan (computeHealthFactor (Fin 0) (Fin 2)) (computeHealthFactor (Fin 0) (Fin 1))
   \<and> computeHealthFactor (Fin 0) (Fin (10 ^ 30)) = Fin (- 100)
   \<and> computeHealthFactor (Fin 1) (Fin (10 ^ 30)) = Fin (- 100)
   \<and> \<not> bn_isLessThan (computeHealthFactor (Fin 0) (Fin (10 ^ 30)))
          (computeHealthFactor (Fin 1) (Fin (10 ^ 30)))"
proof -
  have "round_half_up ((0 - 1) / 1) = - 1" "round_half_up ((0 - 2) / 2) = - 1"
    "round_half_up ((0 - 10 ^ 30) / 10 ^ 30) = - 1" "round_half_up ((1 - 10 ^ 30) / 10 ^ 30) = - 1"
    by code_simp+
  then show ?thesis
    by (simp add: computeHealthFactor_Fin)
qed

text \<open>
  C6, amended. Take liabilities positive, and assets and liabilities such that every value
  of the computation (the two totals, their difference, the rounded quotient and its
  product with 100) is within the exponent range of the decimal library, that is, zero or
  of magnitude at least \<open>10^-10000000\<close> and below \<open>10^10000001\<close>. Then the health factor the
  client computes, the quotient \<open>(assets - liabilities) / liabilities\<close> rounded to 20
  decimal places and then multiplied by 100, is a finite value within that range. With
  assets fixed and not negative it does not increase when liabilities increase, and with
  liabilities fixed it does not decrease when assets increase. The change is strict
  whenever the two exact quotients differ by at least \<open>10^-20\<close>, the precision of the
  division.
\<close>

theorem health_factor_monotone:
  fixes A A1 A2 L L1 L2 :: rat
  shows
    "(0 \<le> A \<and> 0 < L1 \<and> L1 \<le> L2
        \<and> health_factor_in_range A L1 \<and> health_factor_in_range A L2 \<longrightarrow>
        (\<exists>h1 h2. computeHealthFactor (Fin A) (Fin L1) = Fin h1
           \<and> computeHealthFactor (Fin A) (Fin L2) = Fin h2
           \<and> bn_in_range h1 \<and> bn_in_range h2
           \<and> h2 \<le> h1
           \<and> ((A - L2) / L2 + 1 / 10 ^ DECIMAL_PLACES \<le> (A - L1) / L1 \<longrightarrow> h2 < h1)))
     \<and> (0 < L \<and> A1 \<le> A2
        \<and> health_factor_in_range A1 L \<and> health_factor_in_range A2 L \<longrightarrow>
        (\<exists>h1 h2. computeHealthFactor (Fin A1) (Fin L) = Fin h1
           \<and> computeHealthFactor (Fin A2) (Fin L) = Fin h2
           \<and> bn_in_range h1 \<and> bn_in_range h2
           \<and> h1 \<le> h2
           \<and> ((A1 - L) / L + 1 / 10 ^ DECIMAL_PLACES \<le> (A2 - L) / L \<longrightarrow> h1 < h2)))"
proof (intro conjI impI)
  assume h: "0 \<le> A \<and> 0 < L1 \<and> L1 \<le> L2
        \<and> health_factor_in_range A L1 \<and> health_factor_in_range A L2"
  then have pos: "L1 \<noteq> 0" "L2 \<noteq> 0" by auto
  have "A / L2 \<le> A / L1"
    using h by (intro divide_left_mono mult_pos_pos) auto
  then have le: "(A - L2) / L2 \<le> (A - L1) / L1"
    using pos by (simp add: diff_divide_distrib)
  have inside: "bn_in_range (round_half_up ((A - L1) / L1) * 100)"
    "bn_in_range (round_half_up ((A - L2) / L2) * 100)"
    using h by (simp_all add: health_factor_in_range_def)
  show "\<exists>h1 h2. computeHealthFactor (Fin A) (Fin L1) = Fin h1
           \<and> computeHealthFactor (Fin A) (Fin L2) = Fin h2
           \<and> bn_in_range h1 \<and> bn_in_range h2
           \<and> h2 \<le> h1
           \<and> ((A - L2) / L2 + 1 / 10 ^ DECIMAL_PLACES \<le> (A - L1) / L1 \<longrightarrow> h2 < h1)"
    using round_half_up_mono [OF le] round_half_up_strict [of "(A - L2) / L2" "(A - L1) / L1"]
      inside
    by (simp add: computeHealthFactor_Fin pos)
next
  assume h: "0 < L \<and> A1 \<le> A2
        \<and> health_factor_in_range A1 L \<and> health_factor_in_range A2 L"
  then have pos: "L \<noteq> 0" by auto
  have le: "(A1 - L) / L \<le> (A2 - L) / L"
    using h by (intro divide_right_mono) auto
  have inside: "bn_in_range (round_half_up ((A1 - L) / L) * 100)"
    "bn_in_range (round_half_up ((A2 - L) / L) * 100)"
    using h by (simp_all add: health_factor_in_range_def)
  show "\<exists>h1 h2. computeHealthFactor (Fin A1) (Fin L) = Fin h1
           \<and> computeHealthFactor (Fin A2) (Fin L) = Fin h2
           \<and> bn_in_range h1 \<and> bn_in_range h2
           \<and> h1 \<le> h2
           \<and> ((A1 - L) / L + 1 / 10 ^ DECIMAL_PLACES \<le> (A2 - L) / L \<longrightarrow> h1 < h2)"
    using round_half_up_mono [OF le] round_half_up_strict [of "(A1 - L) / L" "(A2 - L) / L"]
      inside
    by (simp add: computeHealthFactor_Fin pos)
qed

theorem health_factor_monotone_witness:
  "health_factor_in_range 1050 210
   \<and> health_factor_in_range 1050 420
   \<and> health_factor_in_range 2100 210
   \<and> computeHealthFactor (Fin 1050) (Fin 210) = Fin 400
   \<and> computeHealthFactor (Fin 1050) (Fin 420) = Fin 150
   \<and> computeHealthFactor (Fin 2100) (Fin 210) = Fin 900
   \<and> (\<exists>h1 h2. computeHealthFactor (Fin 1050) (Fin 210) = Fin h1
         \<and> computeHealthFactor (Fin 1050) (Fin 420) = Fin h2 \<and> h2 < h1)
   \<and> (\<exists>h1 h2. computeHealthFactor (Fin 1050) (Fin 210) = Fin h1
         \<and> computeHealthFactor (Fin 2100) (Fin 210) = Fin h2 \<and> h1 < h2)"
proof -
  have gap: "((1050::rat) - 420) / 420 + 1 / 10 ^ DECIMAL_PLACES \<le> (1050 - 210) / 210"
    "((1050::rat) - 210) / 210 + 1 / 10 ^ DECIMAL_PLACES \<le> (2100 - 210) / 210"
    by (simp_all add: DECIMAL_PLACES_def)
  have vals: "round_half_up 4 = 4" "round_half_up (3 / 2) = 3 / 2" "round_half_up 9 = 9"
    by code_simp+
  have moderate: "bn_in_range 1050" "bn_in_range 2100" "bn_in_range 210" "bn_in_range 420"
    "bn_in_range 840" "bn_in_range 630" "bn_in_range 1890"
    "bn_in_range 4" "bn_in_range (3 / 2)" "bn_in_range 9"
    "bn_in_range 400" "bn_in_range 150" "bn_in_range 900"
    by (rule bn_in_range_moderate; simp)+
  have inside: "health_factor_in_range 1050 210" "health_factor_in_range 1050 420"
    "health_factor_in_range 2100 210"
    by (simp_all add: health_factor_in_range_def vals moderate)
  from health_factor_monotone [of 1050 210 420 210 1050 2100] gap inside
  show ?thesis
    by (simp add: computeHealthFactor_Fin vals)
qed

section \<open>Share and amount conversions\<close>

text \<open>
  C7. \<open>sharesToAmount(shares, shareValue)\<close> is the exact product \<open>shares * shareValue\<close>.
  \<open>amountToShares(amount, shareValue)\<close> fails with \<open>DivisionError\<close> exactly when the
  share value is zero, and is otherwise the quotient \<open>amount / shareValue\<close> of the decimal
  division, within half a unit of the 20th decimal place of the exact quotient. For every
  share value \<open>v > 0\<close> and every \<open>s\<close>, converting \<open>s\<close> shares to an amount and back
  succeeds and gives \<open>s\<close> within that precision, and gives \<open>s\<close> itself when \<open>s\<close> has at most
  20 decimal places.
\<close>

theorem share_conversion_round_trip:
  fixes s v a :: rat
  shows
    "sharesToAmount shares shareValue = bn_times shares shareValue
     \<and> sharesToAmount (Fin s) (Fin v) = Fin (s * v)
     \<and> (amountToShares amount shareValue = Inl DivisionError) = (shareValue = Fin 0)
     \<and> isl (amountToShares amount shareValue) = (shareValue = Fin 0)
     \<and> (shareValue \<noteq> Fin 0 \<longrightarrow>
          amountToShares amount shareValue = Inr (bn_div amount shareValue))
     \<and> (v \<noteq> 0 \<longrightarrow>
          (\<exists>q. amountToShares (Fin a) (Fin v) = Inr (Fin q)
             \<and> \<bar>q - a / v\<bar> \<le> 1 / (2 * 10 ^ DECIMAL_PLACES)))
     \<and> (0 < v \<longrightarrow>
          (\<exists>r. amountToShares (sharesToAmount (Fin s) (Fin v)) (Fin v) = Inr (Fin r)
             \<and> \<bar>r - s\<bar> \<le> 1 / (2 * 10 ^ DECIMAL_PLACES)
             \<and> (\<forall>k. s * 10 ^ DECIMAL_PLACES = of_int k \<longrightarrow> r = s)))"
proof -
  have division: "v \<noteq> 0 \<longrightarrow>
          (\<exists>q. amountToShares (Fin a) (Fin v) = Inr (Fin q)
             \<and> \<bar>q - a / v\<bar> \<le> 1 / (2 * 10 ^ DECIMAL_PLACES))"
    using round_half_up_error [of "a / v"] by (simp add: amountToShares_def)
  have trip: "0 < v \<longrightarrow>
          (\<exists>r. amountToShares (sharesToAmount (Fin s) (Fin v)) (Fin v) = Inr (Fin r)
             \<and> \<bar>r - s\<bar> \<le> 1 / (2 * 10 ^ DECIMAL_PLACES)
             \<and> (\<forall>k. s * 10 ^ DECIMAL_PLACES = of_int k \<longrightarrow> r = s))"
  proof
    assume v: "0 < v"
    then have "amountToShares (sharesToAmount (Fin s) (Fin v)) (Fin v) = Inr (Fin (round_half_up s))"
      by (simp add: amountToShares_def sharesToAmount_def)
    moreover have "\<forall>k. s * 10 ^ DECIMAL_PLACES = of_int k \<longrightarrow> round_half_up s = s"
      using round_half_up_exact by blast
    ultimately show "\<exists>r. amountToShares (sharesToAmount (Fin s) (Fin v)) (Fin v) = Inr (Fin r)
             \<and> \<bar>r - s\<bar> \<le> 1 / (2 * 10 ^ DECIMAL_PLACES)
             \<and> (\<forall>k. s * 10 ^ DECIMAL_PLACES = of_int k \<longrightarrow> r = s)"
      using round_half_up_error [of s] by blast
  qed
  have rest: "sharesToAmount shares shareValue = bn_times shares shareValue"
    "sharesToAmount (Fin s) (Fin v) = Fin (s * v)"
    "(amountToShares amount shareValue = Inl DivisionError) = (shareValue = Fin 0)"
    "isl (amountToShares amount shareValue) = (shareValue = Fin 0)"
    "shareValue \<noteq> Fin 0 \<longrightarrow> amountToShares amount shareValue = Inr (bn_div amount shareValue)"
    by (simp_all add: amountToShares_def sharesToAmount_def)
  from rest division trip show ?thesis by blast
qed

theorem share_conversion_round_trip_witness:
  "sharesToAmount (Fin 1000) (Fin (105 / 100)) = Fin 1050
   \<and> amountToShares (sharesToAmount (Fin 1000) (Fin (105 / 100))) (Fin (105 / 100))
       = Inr (Fin 1000)
   \<and> amountToShares (Fin 1050) (Fin 0) = Inl DivisionError"
proof -
  note t = share_conversion_round_trip
    [where s = 1000 and v = "105 / 100" and a = 1050 and amount = "Fin 1050"
       and shareValue = "Fin 0" and shares = "Fin 1000"]
  from t have there: "sharesToAmount (Fin 1000) (Fin (105 / 100)) = Fin 1050" by simp
  from t have zero: "amountToShares (Fin 1050) (Fin 0) = Inl DivisionError" by simp
  from t obtain r where
    r: "amountToShares (sharesToAmount (Fin 1000) (Fin (105 / 100))) (Fin (105 / 100)) = Inr (Fin r)"
    and exact: "\<forall>k. (1000::rat) * 10 ^ DECIMAL_PLACES = of_int k \<longrightarrow> r = 1000"
    by auto
  from exact [rule_format, of "1000 * 10 ^ DECIMAL_PLACES"] have "r = 1000" by simp
  with there zero r show ?thesis by simp
qed

end
